theory Spec2Isabelle
  imports Complex_Main "HOL-Library.Word"
begin

section \<open>Stored data\<close>

text \<open>
  A cell of a SQLite table holds NULL, an integer, a real, a text or a blob. Texts and
  blobs are byte strings. A table is known to the commands through
  \<^verbatim>\<open>PRAGMA table_info\<close> (of which the code reads the column name, field 1, and the
  primary-key ordinal, field 5), through the \<^verbatim>\<open>sql\<close> text kept in
  \<^verbatim>\<open>sqlite_master\<close>, and through its rows in scan order. The database maps table names
  to tables; names are taken as plain SQL identifiers and compared as written.
\<close>

datatype val = VNull | VInt int | VReal real | VText string | VBlob string

type_synonym row = "val list"

record col =
  cname :: string
  pk :: nat

record table =
  cols :: "col list"
  rows :: "row list"
  ddl :: string

type_synonym db = "string \<Rightarrow> table option"

section \<open>Outcomes of a command\<close>

datatype sql_error =
    NoSuchTable string
  | TableExists string
  | SyntaxError
  | NoSuchColumn
  | ColumnCount
  | IOError

datatype exc = TyperExit nat | DatabaseError sql_error | LibraryError

datatype HashAlgo = sha256 | sha512

datatype verdict = Drift | Ok | InsufficientData

record drift_row =
  dr_column :: string
  dr_stat :: "(real \<times> real) option"
  dr_verdict :: verdict

datatype msg =
    MsgTableNotFound string
  | MsgErrorReading exc
  | MsgFingerprint HashAlgo string
  | MsgInvalidHashLength
  | MsgErrorHashing exc
  | MsgVerified HashAlgo
  | MsgVerificationFailed
  | MsgExpected string
  | MsgActual string
  | MsgReportWarning
  | MsgReportGenerated string
  | MsgSnapshotExists string string
  | MsgSnapshotCreated string string
  | MsgErrorCreating exc
  | MsgSnapshotNotFound string string
  | MsgDryRun nat nat
  | MsgNoChanges
  | MsgRestored string string
  | MsgErrorRollback exc
  | MsgBaselineNotFound string string
  | MsgDbError exc
  | MsgDriftTable "drift_row list"
  | MsgDriftDetected real
  | MsgNoDrift

text \<open>
  A command prints messages and then either returns or leaves through an exception:
  \<^verbatim>\<open>typer.Exit(code)\<close>, or an exception that nothing catches.
\<close>

datatype 'a result = Return 'a | Exit nat | Uncaught exc

section \<open>Libraries the commands call\<close>

text \<open>
  The commands hand their data to \<^verbatim>\<open>hashlib\<close>, \<^verbatim>\<open>pandas\<close>, \<^verbatim>\<open>scipy\<close> and to SQLite's own
  text generation. These are parameters of the model: the two digests as functions from
  the bytes fed to the digest value, \<^verbatim>\<open>DataFrame.to_json(orient='split', date_format='iso')\<close>
  as a function of the column names and rows of one chunk, the \<^verbatim>\<open>sql\<close> text SQLite
  records for \<^verbatim>\<open>CREATE TABLE .. AS SELECT\<close>, \<^verbatim>\<open>select_dtypes(include=['number'])\<close> as
  the list of numeric columns of a frame, and \<^verbatim>\<open>ks_2samp\<close>.
\<close>

record libs =
  lib_sha256 :: "string \<Rightarrow> 256 word"
  lib_sha512 :: "string \<Rightarrow> 512 word"
  to_json :: "string list \<Rightarrow> row list \<Rightarrow> string"
  ctas_sql :: "string \<Rightarrow> table \<Rightarrow> string"
  select_number :: "string list \<Rightarrow> row list \<Rightarrow> string list"
  ks_2samp :: "val list \<Rightarrow> val list \<Rightarrow> (real \<times> real) option"

subsection \<open>Hex digests\<close>

text \<open>\<^verbatim>\<open>hexdigest()\<close>: the digest in lower-case hexadecimal, four bits a digit.\<close>

definition hex_digit :: "nat \<Rightarrow> char" where
  "hex_digit n = ''0123456789abcdef'' ! (n mod 16)"

fun hex_digits :: "nat \<Rightarrow> int \<Rightarrow> string" where
  "hex_digits 0 k = []"
| "hex_digits (Suc n) k = hex_digits n (k div 16) @ [hex_digit (nat (k mod 16))]"

definition hex_of_word :: "'a::len word \<Rightarrow> string" where
  "hex_of_word w = hex_digits (LENGTH('a) div 4) (uint w)"

definition hexdigest :: "libs \<Rightarrow> HashAlgo \<Rightarrow> string \<Rightarrow> string" where
  "hexdigest L algo fed =
     (case algo of
        sha256 \<Rightarrow> hex_of_word (lib_sha256 L fed)
      | sha512 \<Rightarrow> hex_of_word (lib_sha512 L fed))"

section \<open>The storage engine\<close>

subsection \<open>Ordering of values\<close>

text \<open>
  \<^verbatim>\<open>ORDER BY\<close> ascending: NULL first, then numbers by value (integers and reals
  together), then texts, then blobs, both bytewise. Rows with equal keys keep their
  scan order.
\<close>

datatype cmp = LT | EQ | GT

fun bytes_cmp :: "string \<Rightarrow> string \<Rightarrow> cmp" where
  "bytes_cmp [] [] = EQ"
| "bytes_cmp [] (y # ys) = LT"
| "bytes_cmp (x # xs) [] = GT"
| "bytes_cmp (x # xs) (y # ys) =
     (if (of_char x :: nat) < of_char y then LT
      else if (of_char y :: nat) < of_char x then GT
      else bytes_cmp xs ys)"

definition real_cmp :: "real \<Rightarrow> real \<Rightarrow> cmp" where
  "real_cmp a b = (if a < b then LT else if b < a then GT else EQ)"

fun val_cmp :: "val \<Rightarrow> val \<Rightarrow> cmp" where
  "val_cmp VNull VNull = EQ"
| "val_cmp VNull _ = LT"
| "val_cmp _ VNull = GT"
| "val_cmp (VInt a) (VInt b) = real_cmp (of_int a) (of_int b)"
| "val_cmp (VInt a) (VReal b) = real_cmp (of_int a) b"
| "val_cmp (VReal a) (VInt b) = real_cmp a (of_int b)"
| "val_cmp (VReal a) (VReal b) = real_cmp a b"
| "val_cmp (VInt _) _ = LT"
| "val_cmp (VReal _) _ = LT"
| "val_cmp _ (VInt _) = GT"
| "val_cmp _ (VReal _) = GT"
| "val_cmp (VText a) (VText b) = bytes_cmp a b"
| "val_cmp (VText _) (VBlob _) = LT"
| "val_cmp (VBlob _) (VText _) = GT"
| "val_cmp (VBlob a) (VBlob b) = bytes_cmp a b"

fun key_cmp :: "val list \<Rightarrow> val list \<Rightarrow> cmp" where
  "key_cmp (x # xs) (y # ys) = (case val_cmp x y of EQ \<Rightarrow> key_cmp xs ys | c \<Rightarrow> c)"
| "key_cmp _ _ = EQ"

fun insert_by :: "('a \<Rightarrow> val list) \<Rightarrow> 'a \<Rightarrow> 'a list \<Rightarrow> 'a list" where
  "insert_by k x [] = [x]"
| "insert_by k x (y # ys) =
     (if key_cmp (k x) (k y) = GT then y # insert_by k x ys else x # y # ys)"

definition order_by_key :: "('a \<Rightarrow> val list) \<Rightarrow> 'a list \<Rightarrow> 'a list" where
  "order_by_key k xs = foldr (insert_by k) xs []"

subsection \<open>Reading\<close>

fun index_of :: "string \<Rightarrow> string list \<Rightarrow> nat" where
  "index_of c [] = 0"
| "index_of c (d # ds) = (if c = d then 0 else Suc (index_of c ds))"

definition cell :: "row \<Rightarrow> nat \<Rightarrow> val" where
  "cell r i = (if i < length r then r ! i else VNull)"

definition project :: "string list \<Rightarrow> string list \<Rightarrow> row \<Rightarrow> row" where
  "project names sel r = map (\<lambda>c. cell r (index_of c names)) sel"

text \<open>\<^verbatim>\<open>PRAGMA table_info(t)\<close>: one entry per column, none for a table that does not exist.\<close>

definition table_info :: "db \<Rightarrow> string \<Rightarrow> col list" where
  "table_info d t = (case d t of None \<Rightarrow> [] | Some tb \<Rightarrow> cols tb)"

text \<open>The query both hashing commands build: \<^verbatim>\<open>SELECT q_cols FROM q_table ORDER BY q_order\<close>.\<close>

record query =
  q_cols :: "string list"
  q_table :: string
  q_order :: "string list"

definition run_query :: "db \<Rightarrow> query \<Rightarrow> sql_error + row list" where
  "run_query d q =
     (case d (q_table q) of
        None \<Rightarrow> if q_cols q = [] \<or> q_order q = [] then Inl SyntaxError
                else Inl (NoSuchTable (q_table q))
      | Some tb \<Rightarrow>
          let names = map cname (cols tb) in
          if q_cols q = [] \<or> q_order q = [] then Inl SyntaxError
          else if \<not> set (q_cols q @ q_order q) \<subseteq> set names then Inl NoSuchColumn
          else Inr (map (project names (q_cols q))
                      (order_by_key (project names (q_order q)) (rows tb))))"

text \<open>
  \<^verbatim>\<open>pd.read_sql_query(query, con, chunksize=n)\<close> yields frames of \<open>n\<close> rows, the last one
  shorter; a result without rows is one empty frame; with \<open>n \<le> 0\<close> the cursor's
  \<^verbatim>\<open>fetchmany\<close> returns every row at once.
\<close>

function split_chunks :: "nat \<Rightarrow> 'a list \<Rightarrow> 'a list list" where
  "split_chunks n xs =
     (if n = 0 \<or> xs = [] then [] else take n xs # split_chunks n (drop n xs))"
  by pat_completeness auto
termination
  by (relation "measure (\<lambda>(n, xs). length xs)") auto

definition read_chunks :: "int \<Rightarrow> row list \<Rightarrow> row list list" where
  "read_chunks chunk_size rs =
     (if rs = [] then [[]]
      else if chunk_size \<le> 0 then [rs]
      else split_chunks (nat chunk_size) rs)"

section \<open>Fingerprints\<close>

subsection \<open>The excluded columns\<close>

text \<open>
  \<^verbatim>\<open>[c.strip() for c in exclude_cols.split(',')] if exclude_cols else []\<close>. Strings are
  byte strings here, and \<open>strip\<close> removes the ASCII white space of Python's \<^verbatim>\<open>str.strip\<close>.
\<close>

fun split_on :: "char \<Rightarrow> string \<Rightarrow> string list" where
  "split_on s [] = [[]]"
| "split_on s (c # cs) =
     (if c = s then [] # split_on s cs
      else (case split_on s cs of [] \<Rightarrow> [[c]] | w # ws \<Rightarrow> (c # w) # ws))"

definition is_space :: "char \<Rightarrow> bool" where
  "is_space c = ((of_char c :: nat) \<in> {9, 10, 11, 12, 13, 28, 29, 30, 31, 32})"

definition strip :: "string \<Rightarrow> string" where
  "strip s = rev (dropWhile is_space (rev (dropWhile is_space s)))"

definition parse_exclude :: "string option \<Rightarrow> string list" where
  "parse_exclude exclude_cols =
     (case exclude_cols of
        None \<Rightarrow> []
      | Some e \<Rightarrow> if e = [] then [] else map strip (split_on (CHR '','') e))"

subsection \<open>hash-create\<close>

definition hash_create_query :: "col list \<Rightarrow> string \<Rightarrow> string list \<Rightarrow> query" where
  "hash_create_query info table_name cols_to_exclude =
     (let all_cols = map cname info;
          pk_cols = map cname (filter (\<lambda>i. pk i > 0) info);
          query_cols = filter (\<lambda>c. c \<notin> set cols_to_exclude) all_cols;
          order_by = (if pk_cols \<noteq> [] then pk_cols else query_cols)
      in \<lparr>q_cols = query_cols, q_table = table_name, q_order = order_by\<rparr>)"

text \<open>
  What the digest has been fed when the loop over the chunks ends: the salt, then each
  chunk's JSON text in order.
\<close>

definition hash_create_fed :: "libs \<Rightarrow> string \<Rightarrow> string list \<Rightarrow> int \<Rightarrow> row list \<Rightarrow> string" where
  "hash_create_fed L salt query_cols chunk_size rs =
     salt @ concat (map (to_json L query_cols) (read_chunks chunk_size rs))"

definition hash_create ::
  "libs \<Rightarrow> db \<Rightarrow> string \<Rightarrow> HashAlgo \<Rightarrow> string \<Rightarrow> string option \<Rightarrow> int
     \<Rightarrow> msg list \<times> string result" where
  "hash_create L d table_name algo salt exclude_cols chunk_size =
     (let cols_to_exclude = parse_exclude exclude_cols;
          info = table_info d table_name
      in if info = [] then
           ([MsgTableNotFound table_name, MsgErrorReading (TyperExit 1)], Exit 1)
         else
           let q = hash_create_query info table_name cols_to_exclude in
           (case run_query d q of
              Inl e \<Rightarrow> ([MsgErrorReading (DatabaseError e)], Exit 1)
            | Inr rs \<Rightarrow>
                let fingerprint =
                      hexdigest L algo (hash_create_fed L salt (q_cols q) chunk_size rs)
                in ([MsgFingerprint algo fingerprint], Return fingerprint)))"

subsection \<open>hash-verify\<close>

text \<open>
  The PDF report is kept as the values written into it; its time stamp and file name
  are left out.
\<close>

record report =
  rp_table :: string
  rp_algo :: HashAlgo
  rp_strict :: bool
  rp_verified :: bool
  rp_exp :: string
  rp_act :: string
  rp_signer :: "string option"

definition detect_algo :: "string \<Rightarrow> HashAlgo option" where
  "detect_algo expected_hash =
     (if length expected_hash = 64 then Some sha256
      else if length expected_hash = 128 then Some sha512
      else None)"

definition hash_verify_query :: "col list \<Rightarrow> string \<Rightarrow> string list \<Rightarrow> query" where
  "hash_verify_query info table_name cols_to_exclude =
     (let all_cols = map cname info;
          pk_cols = map cname (filter (\<lambda>i. pk i > 0) info);
          query_cols = filter (\<lambda>c. c \<notin> set cols_to_exclude) all_cols;
          order_by = (if pk_cols \<noteq> [] then pk_cols else query_cols)
      in \<lparr>q_cols = query_cols, q_table = table_name, q_order = order_by\<rparr>)"

text \<open>
  \<^verbatim>\<open>SELECT sql FROM sqlite_master WHERE name='t'\<close>, read only under \<^verbatim>\<open>--strict\<close>.
\<close>

definition master_sql :: "db \<Rightarrow> string \<Rightarrow> string option" where
  "master_sql d t = map_option ddl (d t)"

definition hash_verify_fed ::
  "libs \<Rightarrow> string \<Rightarrow> string \<Rightarrow> string list \<Rightarrow> int \<Rightarrow> row list \<Rightarrow> string" where
  "hash_verify_fed L salt schema query_cols chunk_size rs =
     salt @ schema @ concat (map (to_json L query_cols) (read_chunks chunk_size rs))"

definition verify_finish ::
  "string \<Rightarrow> HashAlgo \<Rightarrow> bool \<Rightarrow> string \<Rightarrow> string \<Rightarrow> string option \<Rightarrow> string option
     \<Rightarrow> msg list \<times> report option \<times> unit result" where
  "verify_finish table_name algo_name strict expected_hash calculated_hash report_format signer_key =
     (let verified = (calculated_hash = expected_hash);
          out1 = (if verified then [MsgVerified algo_name]
                  else [MsgVerificationFailed, MsgExpected expected_hash,
                        MsgActual calculated_hash]);
          out2 = (if report_format = Some ''pdf''
                  then (if \<not> verified then [MsgReportWarning] else [])
                       @ [MsgReportGenerated table_name]
                  else []);
          rep = (if report_format = Some ''pdf''
                 then Some \<lparr>rp_table = table_name, rp_algo = algo_name, rp_strict = strict,
                        rp_verified = verified, rp_exp = expected_hash,
                        rp_act = calculated_hash, rp_signer = signer_key\<rparr>
                 else None)
      in (out1 @ out2, rep, if \<not> verified then Exit 1 else Return ()))"

definition hash_verify ::
  "libs \<Rightarrow> db \<Rightarrow> string \<Rightarrow> string \<Rightarrow> string \<Rightarrow> string option \<Rightarrow> int \<Rightarrow> bool
     \<Rightarrow> string option \<Rightarrow> string option \<Rightarrow> msg list \<times> report option \<times> unit result" where
  "hash_verify L d table_name expected_hash salt exclude_cols chunk_size strict
       report_format signer_key =
     (case detect_algo expected_hash of
        None \<Rightarrow> ([MsgInvalidHashLength], None, Exit 1)
      | Some algo_name \<Rightarrow>
          let cols_to_exclude = parse_exclude exclude_cols;
              info = table_info d table_name
          in if info = [] then
               ([MsgTableNotFound table_name, MsgErrorHashing (TyperExit 1)], None, Exit 1)
             else
               (case (if strict then master_sql d table_name else Some []) of
                  None \<Rightarrow> ([MsgErrorHashing LibraryError], None, Exit 1)
                | Some schema \<Rightarrow>
                    let q = hash_verify_query info table_name cols_to_exclude in
                    (case run_query d q of
                       Inl e \<Rightarrow> ([MsgErrorHashing (DatabaseError e)], None, Exit 1)
                     | Inr rs \<Rightarrow>
                         let calculated_hash =
                               hexdigest L algo_name
                                 (hash_verify_fed L salt schema (q_cols q) chunk_size rs)
                         in verify_finish table_name algo_name strict expected_hash
                              calculated_hash report_format signer_key)))"

section \<open>Snapshots\<close>

subsection \<open>Statements that change the database\<close>

text \<open>
  The snapshot commands issue \<^verbatim>\<open>CREATE TABLE new AS SELECT * FROM src\<close>,
  \<^verbatim>\<open>CREATE TABLE IF NOT EXISTS _wi_snapshots (..)\<close>, \<^verbatim>\<open>INSERT INTO _wi_snapshots VALUES (?, ?, ?, ?, ?)\<close>
  and \<^verbatim>\<open>DROP TABLE t\<close>. The copy made by \<^verbatim>\<open>CREATE TABLE .. AS SELECT\<close> has the source's
  column names and rows and no primary key.

  The connection is opened with \<^verbatim>\<open>sqlite3.connect\<close> and its defaults: a transaction is
  opened only before a row-changing statement, so each \<^verbatim>\<open>CREATE\<close> and \<^verbatim>\<open>DROP\<close> is
  committed as it runs, and the roll-back at the end of a failed \<^verbatim>\<open>with\<close> block has
  nothing of them to undo. A statement that fails changes nothing.
\<close>

datatype stmt =
    CreateTableAs string string
  | CreateSnapshotsTable
  | InsertSnapshot "string list"
  | DropTable string

definition wi_snapshots_table :: table where
  "wi_snapshots_table =
     \<lparr>cols = map (\<lambda>n. \<lparr>cname = n, pk = 0\<rparr>)
              [''name'', ''original_table'', ''snapshot_table'', ''timestamp'', ''comment''],
      rows = [],
      ddl = ''CREATE TABLE _wi_snapshots (name TEXT, original_table TEXT, snapshot_table TEXT, timestamp TEXT, comment TEXT)''\<rparr>"

definition copy_of :: "libs \<Rightarrow> string \<Rightarrow> table \<Rightarrow> table" where
  "copy_of L new src =
     \<lparr>cols = map (\<lambda>c. \<lparr>cname = cname c, pk = 0\<rparr>) (cols src),
      rows = rows src,
      ddl = ctas_sql L new src\<rparr>"

fun exec :: "libs \<Rightarrow> stmt \<Rightarrow> db \<Rightarrow> sql_error + db" where
  "exec L (CreateTableAs new src) d =
     (if d new \<noteq> None then Inl (TableExists new)
      else (case d src of
              None \<Rightarrow> Inl (NoSuchTable src)
            | Some tb \<Rightarrow> Inr (d(new \<mapsto> copy_of L new tb))))"
| "exec L CreateSnapshotsTable d =
     (if d ''_wi_snapshots'' \<noteq> None then Inr d
      else Inr (d(''_wi_snapshots'' \<mapsto> wi_snapshots_table)))"
| "exec L (InsertSnapshot vs) d =
     (case d ''_wi_snapshots'' of
        None \<Rightarrow> Inl (NoSuchTable ''_wi_snapshots'')
      | Some tb \<Rightarrow>
          if length (cols tb) \<noteq> length vs then Inl ColumnCount
          else Inr (d(''_wi_snapshots'' \<mapsto> tb\<lparr>rows := rows tb @ [map VText vs]\<rparr>)))"
| "exec L (DropTable t) d =
     (case d t of None \<Rightarrow> Inl (NoSuchTable t) | Some _ \<Rightarrow> Inr (d(t := None)))"

text \<open>
  The storage may also fail on its own (a full disk, a lock, a crash). Which statements
  meet such a failure is an input of the model.
\<close>

type_synonym faults = "stmt \<Rightarrow> bool"

definition no_faults :: faults where
  "no_faults = (\<lambda>s. False)"

definition run_stmt :: "faults \<Rightarrow> libs \<Rightarrow> stmt \<Rightarrow> db \<Rightarrow> sql_error + db" where
  "run_stmt F L s d = (if F s then Inl IOError else exec L s d)"

subsection \<open>snapshot\<close>

definition snapshot_table_name :: "string \<Rightarrow> string \<Rightarrow> string" where
  "snapshot_table_name name table_name = ''_snapshot_'' @ name @ ''_'' @ table_name"

definition snapshot ::
  "faults \<Rightarrow> libs \<Rightarrow> db \<Rightarrow> string \<Rightarrow> string \<Rightarrow> string \<Rightarrow> string
     \<Rightarrow> msg list \<times> unit result \<times> db" where
  "snapshot F L d table_name name comment now =
     (let sn = snapshot_table_name name table_name in
      if d sn \<noteq> None then
        ([MsgSnapshotExists name table_name, MsgErrorCreating (TyperExit 1)], Exit 1, d)
      else
        (case run_stmt F L (CreateTableAs sn table_name) d of
           Inl e \<Rightarrow> ([MsgErrorCreating (DatabaseError e)], Exit 1, d)
         | Inr d1 \<Rightarrow>
             (case run_stmt F L CreateSnapshotsTable d1 of
                Inl e \<Rightarrow> ([MsgErrorCreating (DatabaseError e)], Exit 1, d1)
              | Inr d2 \<Rightarrow>
                  (case run_stmt F L (InsertSnapshot [name, table_name, sn, now, comment]) d2 of
                     Inl e \<Rightarrow> ([MsgErrorCreating (DatabaseError e)], Exit 1, d2)
                   | Inr d3 \<Rightarrow> ([MsgSnapshotCreated name sn], Return (), d3)))))"

subsection \<open>rollback\<close>

definition rollback ::
  "faults \<Rightarrow> libs \<Rightarrow> db \<Rightarrow> string \<Rightarrow> string \<Rightarrow> bool \<Rightarrow> msg list \<times> unit result \<times> db" where
  "rollback F L d table_name snapshot_id dry_run =
     (let sn = snapshot_table_name snapshot_id table_name in
      case d sn of
        None \<Rightarrow>
          ([MsgSnapshotNotFound snapshot_id table_name, MsgErrorRollback (TyperExit 1)],
           Exit 1, d)
      | Some snap \<Rightarrow>
          if dry_run then
            (case d table_name of
               None \<Rightarrow> ([MsgErrorRollback (DatabaseError (NoSuchTable table_name))], Exit 1, d)
             | Some cur \<Rightarrow>
                 ([MsgDryRun (length (rows cur)) (length (rows snap)), MsgNoChanges],
                  Return (), d))
          else
            (case run_stmt F L (DropTable table_name) d of
               Inl e \<Rightarrow> ([MsgErrorRollback (DatabaseError e)], Exit 1, d)
             | Inr d1 \<Rightarrow>
                 (case run_stmt F L (CreateTableAs table_name sn) d1 of
                    Inl e \<Rightarrow> ([MsgErrorRollback (DatabaseError e)], Exit 1, d1)
                  | Inr d2 \<Rightarrow> ([MsgRestored table_name snapshot_id], Return (), d2))))"

section \<open>Drift\<close>

definition column_of :: "table \<Rightarrow> string \<Rightarrow> val list" where
  "column_of tb c = map (\<lambda>r. cell r (index_of c (map cname (cols tb)))) (rows tb)"

definition dropna :: "val list \<Rightarrow> val list" where
  "dropna vs = filter (\<lambda>v. v \<noteq> VNull) vs"

text \<open>
  The loop over the numeric columns of the live frame. The state is the rows added to
  the printed table and \<^verbatim>\<open>drift_detected\<close>; an exception of \<^verbatim>\<open>ks_2samp\<close> ends the command.
\<close>

fun drift_loop ::
  "libs \<Rightarrow> table \<Rightarrow> table \<Rightarrow> real \<Rightarrow> string list \<Rightarrow> drift_row list \<times> bool
     \<Rightarrow> (drift_row list \<times> bool) option" where
  "drift_loop L cur base threshold [] st = Some st"
| "drift_loop L cur base threshold (c # cs) (tbl, drift_detected) =
     (if c \<notin> set (map cname (cols base)) then
        drift_loop L cur base threshold cs (tbl, drift_detected)
      else
        let curr_data = dropna (column_of cur c);
            base_data = dropna (column_of base c)
        in if length curr_data = 0 \<or> length base_data = 0 then
             drift_loop L cur base threshold cs
               (tbl @ [\<lparr>dr_column = c, dr_stat = None, dr_verdict = InsufficientData\<rparr>],
                drift_detected)
           else
             (case ks_2samp L curr_data base_data of
                None \<Rightarrow> None
              | Some (ks_stat, p_value) \<Rightarrow>
                  let is_drift = (p_value < threshold) in
                  drift_loop L cur base threshold cs
                    (tbl @ [\<lparr>dr_column = c, dr_stat = Some (ks_stat, p_value),
                             dr_verdict = (if is_drift then Drift else Ok)\<rparr>],
                     (if is_drift then True else drift_detected))))"

definition drift_check ::
  "libs \<Rightarrow> db \<Rightarrow> string \<Rightarrow> string \<Rightarrow> real \<Rightarrow> msg list \<times> unit result" where
  "drift_check L d table_name baseline threshold =
     (let snapshot_table = ''_snapshot_'' @ baseline @ ''_'' @ table_name in
      case d snapshot_table of
        None \<Rightarrow> ([MsgBaselineNotFound baseline table_name, MsgDbError (TyperExit 1)], Exit 1)
      | Some df_base \<Rightarrow>
          (case d table_name of
             None \<Rightarrow> ([MsgDbError (DatabaseError (NoSuchTable table_name))], Exit 1)
           | Some df_curr \<Rightarrow>
               let numeric_cols = select_number L (map cname (cols df_curr)) (rows df_curr) in
               (case drift_loop L df_curr df_base threshold numeric_cols ([], False) of
                  None \<Rightarrow> ([], Uncaught LibraryError)
                | Some (tbl, drift_detected) \<Rightarrow>
                    if drift_detected then
                      ([MsgDriftTable tbl, MsgDriftDetected threshold], Exit 1)
                    else ([MsgDriftTable tbl, MsgNoDrift], Return ()))))"

section \<open>Schema changes made outside the commands\<close>


section \<open>The rules as the specification words them\<close>

text \<open>
  Canonical order key: the declared primary-key columns if there are any, otherwise
  every included column in declared column order. The declared order of the columns is
  that of \<^verbatim>\<open>PRAGMA table_info\<close>.
\<close>

definition primary_key_columns :: "col list \<Rightarrow> string list" where
  "primary_key_columns info = map cname (filter (\<lambda>c. 0 < pk c) info)"



text \<open>
  Drift verdict of one column: nulls dropped on each side; insufficient data without a
  statistic if a side is empty; otherwise drift when the p-value is below the threshold.
\<close>

definition column_verdict ::
  "real \<Rightarrow> (val list \<Rightarrow> val list \<Rightarrow> (real \<times> real) option) \<Rightarrow> val list \<Rightarrow> val list
     \<Rightarrow> ((real \<times> real) option \<times> verdict) option" where
  "column_verdict threshold test live baseline =
     (if dropna live = [] \<or> dropna baseline = [] then Some (None, InsufficientData)
      else (case test (dropna live) (dropna baseline) of
              None \<Rightarrow> None
            | Some (statistic, p_value) \<Rightarrow>
                Some (Some (statistic, p_value), if p_value < threshold then Drift else Ok)))"

text \<open>
  The report: one row for every numeric column of the live table that the baseline has
  too, in the order of the live table. It is undefined when the test fails on a column.
\<close>

definition verdict_row ::
  "real \<Rightarrow> (val list \<Rightarrow> val list \<Rightarrow> (real \<times> real) option) \<Rightarrow> table \<Rightarrow> table \<Rightarrow> string
     \<Rightarrow> drift_row option" where
  "verdict_row threshold test live baseline c =
     map_option (\<lambda>(st, v). \<lparr>dr_column = c, dr_stat = st, dr_verdict = v\<rparr>)
       (column_verdict threshold test (column_of live c) (column_of baseline c))"

definition drift_report ::
  "real \<Rightarrow> (val list \<Rightarrow> val list \<Rightarrow> (real \<times> real) option) \<Rightarrow> string list \<Rightarrow> table \<Rightarrow> table
     \<Rightarrow> drift_row list option" where
  "drift_report threshold test numeric live baseline =
     those (map (verdict_row threshold test live baseline)
              (filter (\<lambda>c. c \<in> set (map cname (cols baseline))) numeric))"




section \<open>Library instances used for evaluation\<close>

text \<open>
  To evaluate the commands on concrete tables the library parameters are instantiated.
  \<open>json_split\<close> writes a frame as \<^verbatim>\<open>to_json(orient='split')\<close> writes a frame whose
  columns hold integers only or NULL only; \<open>poly_digest\<close> stands in for a digest and separates the inputs it is
  evaluated on below; \<open>number_columns\<close> follows the type inference of \<^verbatim>\<open>read_sql_query\<close>
  (a column is numeric when it has a number and nothing but numbers and NULL);
  \<open>same_sample\<close> stands in for the two-sample test.
\<close>

function show_nat :: "nat \<Rightarrow> string" where
  "show_nat n =
     (if n < 10 then [''0123456789'' ! n]
      else show_nat (n div 10) @ [''0123456789'' ! (n mod 10)])"
  by pat_completeness auto
termination
  by (relation "measure id") auto

definition show_int :: "int \<Rightarrow> string" where
  "show_int i = (if i < 0 then CHR ''-'' # show_nat (nat (- i)) else show_nat (nat i))"

definition dq :: char where
  "dq = CHR 0x22"

fun commas :: "string list \<Rightarrow> string" where
  "commas [] = []"
| "commas [x] = x"
| "commas (x # y # ys) = x @ '','' @ commas (y # ys)"

fun json_val :: "val \<Rightarrow> string" where
  "json_val VNull = ''null''"
| "json_val (VInt i) = show_int i"
| "json_val (VReal x) = ''null''"
| "json_val (VText s) = dq # s @ [dq]"
| "json_val (VBlob s) = dq # s @ [dq]"

definition json_split :: "string list \<Rightarrow> row list \<Rightarrow> string" where
  "json_split names rs =
     ''{'' @ dq # ''columns'' @ dq # '':['' @ commas (map (\<lambda>n. dq # n @ [dq]) names)
     @ ''],'' @ dq # ''index'' @ dq # '':['' @ commas (map show_nat [0..<length rs])
     @ ''],'' @ dq # ''data'' @ dq # '':[''
     @ commas (map (\<lambda>r. ''['' @ commas (map json_val r) @ '']'') rs) @ '']}''"

definition poly_digest :: "string \<Rightarrow> 'a::len word" where
  "poly_digest m = word_of_int (foldl (\<lambda>h c. h * 257 + of_char c + 1) 0 m)"

definition is_number :: "val \<Rightarrow> bool" where
  "is_number v = (case v of VInt _ \<Rightarrow> True | VReal _ \<Rightarrow> True | _ \<Rightarrow> False)"

definition number_columns :: "string list \<Rightarrow> row list \<Rightarrow> string list" where
  "number_columns names rs =
     filter (\<lambda>c. let vs = map (\<lambda>r. cell r (index_of c names)) rs
                 in list_ex is_number vs \<and> list_all (\<lambda>v. is_number v \<or> v = VNull) vs)
       names"

definition same_sample :: "val list \<Rightarrow> val list \<Rightarrow> (real \<times> real) option" where
  "same_sample xs ys =
     (if list_all is_number (xs @ ys) then Some (if xs = ys then (0, 1) else (1, 0))
      else None)"

definition demo_libs :: libs where
  "demo_libs =
     \<lparr>lib_sha256 = poly_digest, lib_sha512 = poly_digest, to_json = json_split,
      ctas_sql = (\<lambda>new src. ''CREATE TABLE '' @ new @ ''('' @ commas (map cname (cols src)) @ '')''),
      select_number = number_columns, ks_2samp = same_sample\<rparr>"

section \<open>Tables used for evaluation\<close>

text \<open>
  \<open>orders\<close> is the table of the specification's scenario, \<open>(id PK, total)\<close>;
  \<open>orders_repriced\<close> is the same table after an update of one \<open>total\<close>. \<open>ledger\<close>
  declares its key in the second column. \<open>events\<close> has a text key, and
  \<open>events_rekeyed\<close> is the same table after an update that exchanges the two keys.
\<close>

definition orders_table :: table where
  "orders_table =
     \<lparr>cols = [\<lparr>cname = ''id'', pk = 1\<rparr>, \<lparr>cname = ''total'', pk = 0\<rparr>],
      rows = [[VInt 1, VInt 10], [VInt 2, VInt 20]],
      ddl = ''CREATE TABLE orders (id INTEGER PRIMARY KEY, total INTEGER)''\<rparr>"

definition orders_db :: db where
  "orders_db = Map.empty(''orders'' \<mapsto> orders_table)"



definition orders_snap_db :: db where
  "orders_snap_db =
     snd (snd (snapshot no_faults demo_libs orders_db ''orders'' ''pre'' [] ''2024-01-01T00:00:00''))"

definition recreate_fails :: faults where
  "recreate_fails = (\<lambda>s. s = CreateTableAs ''orders'' ''_snapshot_pre_orders'')"








text \<open>
  A live table and its baseline snapshot for the drift check: \<open>level\<close> has moved,
  \<open>batch\<close> has not, \<open>spare\<close> is all NULL in the baseline, \<open>extra\<close> is missing from
  it, and \<open>sensor\<close> is text.
\<close>

definition gauges_live :: table where
  "gauges_live =
     \<lparr>cols = map (\<lambda>n. \<lparr>cname = n, pk = 0\<rparr>)
               [''sensor'', ''level'', ''batch'', ''spare'', ''extra''],
      rows = [[VText ''n1'', VInt 4, VInt 1, VInt 7, VInt 1],
              [VText ''n2'', VInt 6, VInt 2, VInt 8, VInt 2]],
      ddl = ''CREATE TABLE gauges (sensor TEXT, level INTEGER, batch INTEGER, spare INTEGER, extra INTEGER)''\<rparr>"

definition gauges_base :: table where
  "gauges_base =
     \<lparr>cols = map (\<lambda>n. \<lparr>cname = n, pk = 0\<rparr>) [''sensor'', ''level'', ''batch'', ''spare''],
      rows = [[VText ''n1'', VInt 3, VInt 1, VNull], [VText ''n2'', VInt 5, VInt 2, VNull]],
      ddl = ''CREATE TABLE _snapshot_base_gauges(sensor,level,batch,spare)''\<rparr>"

definition gauges_db :: db where
  "gauges_db = Map.empty(''gauges'' \<mapsto> gauges_live, ''_snapshot_base_gauges'' \<mapsto> gauges_base)"

text \<open>Two tables whose names and snapshot names run into each other.\<close>

definition shelf_db :: db where
  "shelf_db =
     Map.empty(
       ''x_b'' \<mapsto> \<lparr>cols = [\<lparr>cname = ''v'', pk = 0\<rparr>], rows = [[VInt 1], [VInt 2], [VInt 3]],
                   ddl = ''CREATE TABLE x_b (v INTEGER)''\<rparr>,
       ''b'' \<mapsto> \<lparr>cols = [\<lparr>cname = ''v'', pk = 0\<rparr>], rows = [[VInt 9]],
                 ddl = ''CREATE TABLE b (v INTEGER)''\<rparr>)"

definition shelf_snap_db :: db where
  "shelf_snap_db =
     snd (snd (snapshot no_faults demo_libs shelf_db ''x_b'' ''a'' [] ''2024-01-01T00:00:00''))"

section \<open>Facts about the model\<close>

subsection \<open>Digests and queries\<close>

lemma length_hex_digits: "length (hex_digits n k) = n"
  by (induction n arbitrary: k) auto

lemma length_hex_of_word_256: "length (hex_of_word (w :: 256 word)) = 64"
  by (simp add: hex_of_word_def length_hex_digits)

lemma length_hex_of_word_512: "length (hex_of_word (w :: 512 word)) = 128"
  by (simp add: hex_of_word_def length_hex_digits)

lemma detect_algo_hexdigest: "detect_algo (hexdigest L algo fed) = Some algo"
  by (cases algo)
     (simp_all add: detect_algo_def hexdigest_def length_hex_of_word_256 length_hex_of_word_512)

lemma verify_query_eq: "hash_verify_query info t ex = hash_create_query info t ex"
  by (simp add: hash_verify_query_def hash_create_query_def)

lemma verify_fed_eq: "hash_verify_fed L salt [] qc cs rs = hash_create_fed L salt qc cs rs"
  by (simp add: hash_verify_fed_def hash_create_fed_def)




lemma q_table_create [simp]: "q_table (hash_create_query info t ex) = t"
  by (simp add: hash_create_query_def Let_def)



text \<open>
  Only the test \<open>pk > 0\<close> is made on the key ordinal: a key declared as
  \<^verbatim>\<open>PRIMARY KEY (b, a)\<close> on a table \<open>(a, b)\<close> is ordered by \<open>a, b\<close>.
\<close>

lemma order_key_ignores_pk_ordinal:
  "q_order (hash_create_query [\<lparr>cname = ''a'', pk = 2\<rparr>, \<lparr>cname = ''b'', pk = 1\<rparr>] ''t'' [])
     = [''a'', ''b'']"
  by (simp add: hash_create_query_def)

subsection \<open>Ordering and projection\<close>











subsection \<open>Snapshots\<close>

lemma snapshot_name_not_catalog: "snapshot_table_name n t \<noteq> ''_wi_snapshots''"
  by (simp add: snapshot_table_name_def)


lemma snapshot_name_overlap:
  "snapshot_table_name n (x @ ''_'' @ t) = snapshot_table_name (n @ ''_'' @ x) t"
  by (simp add: snapshot_table_name_def)

lemma snapshot_success_has_copy:
  assumes "snapshot F L d t n c now = (out, Return (), d')"
  shows "d (snapshot_table_name n t) = None \<and> (\<exists>tb. d t = Some tb \<and>
          d' (snapshot_table_name n t) = Some (copy_of L (snapshot_table_name n t) tb))"
  using assms snapshot_name_not_catalog[of n t]
  by (auto simp: snapshot_def Let_def run_stmt_def split: if_splits sum.splits option.splits)


lemma copy_of_simps [simp]:
  "map cname (cols (copy_of L n tb)) = map cname (cols tb)"
  "primary_key_columns (cols (copy_of L n tb)) = []"
  "rows (copy_of L n tb) = rows tb"
  by (simp_all add: copy_of_def primary_key_columns_def comp_def)

subsection \<open>Drift\<close>

lemma drift_loop_report:
  "drift_loop L cur base th cs (tbl, dd) =
     (case drift_report th (ks_2samp L) cs cur base of
        None \<Rightarrow> None
      | Some rs \<Rightarrow> Some (tbl @ rs, dd \<or> (\<exists>r\<in>set rs. dr_verdict r = Drift)))"
proof (induction cs arbitrary: tbl dd)
  case Nil
  then show ?case by (simp add: drift_report_def)
next
  case (Cons c cs)
  show ?case
  proof (cases "c \<in> set (map cname (cols base))")
    case False
    then show ?thesis using Cons.IH[of tbl dd] by (simp add: drift_report_def)
  next
    case True
    then show ?thesis
      using Cons.IH
      by (auto simp: drift_report_def verdict_row_def column_verdict_def Let_def
          split: option.splits)
  qed
qed

subsection \<open>Evaluations\<close>

lemma orders_fingerprint:
  "hash_create demo_libs orders_db ''orders'' sha256 [] None 10000 =
     ([MsgFingerprint sha256 ''565f1691655c602d0498b210b6b1e965cbe719d3c2dd0f68daddfe65b6a84e30''],
      Return ''565f1691655c602d0498b210b6b1e965cbe719d3c2dd0f68daddfe65b6a84e30'')"
  by code_simp

lemma orders_snapshot_returns:
  "fst (snd (snapshot no_faults demo_libs orders_db ''orders'' ''pre'' [] ''2024-01-01T00:00:00''))
     = Return ()"
  by code_simp

lemma failed_rollback_exit:
  "fst (snd (rollback recreate_fails demo_libs orders_snap_db ''orders'' ''pre'' False)) = Exit 1"
  by code_simp




lemma gauges_report:
  "drift_report 0.05 (ks_2samp demo_libs)
     (select_number demo_libs (map cname (cols gauges_live)) (rows gauges_live))
     gauges_live gauges_base
   = Some [\<lparr>dr_column = ''level'', dr_stat = Some (1, 0), dr_verdict = Drift\<rparr>,
           \<lparr>dr_column = ''batch'', dr_stat = Some (0, 1), dr_verdict = Ok\<rparr>,
           \<lparr>dr_column = ''spare'', dr_stat = None, dr_verdict = InsufficientData\<rparr>]"
  by code_simp

section \<open>The claims\<close>

subsection \<open>C1: verification round trip\<close>

text \<open>
  Claim C1. For every table and every fixed choice of algorithm, salt, excluded columns
  and chunk size: when \<open>hash_create\<close> returns a fingerprint, \<open>hash_verify\<close> called on
  the unchanged database with that fingerprint and the same salt, excluded columns and
  chunk size (and without \<^verbatim>\<open>--strict\<close>, which \<open>hash_create\<close> does not have) reports a
  match and returns normally. The algorithm is recovered from the length of the
  fingerprint.
\<close>

theorem verify_accepts_created_fingerprint:
  assumes "hash_create L d table_name algo salt exclude_cols chunk_size = (out, Return fp)"
  shows "snd (snd (hash_verify L d table_name fp salt exclude_cols chunk_size False
                     report_format signer_key)) = Return ()
       \<and> MsgVerified algo \<in> set (fst (hash_verify L d table_name fp salt exclude_cols chunk_size
                     False report_format signer_key))"
  using assms
  by (auto simp: hash_create_def hash_verify_def Let_def detect_algo_hexdigest
       verify_query_eq verify_fed_eq verify_finish_def
       split: if_splits sum.splits)

theorem verify_accepts_created_fingerprint_witness:
  "hash_create demo_libs orders_db ''orders'' sha256 [] None 10000 =
     ([MsgFingerprint sha256 ''565f1691655c602d0498b210b6b1e965cbe719d3c2dd0f68daddfe65b6a84e30''],
      Return ''565f1691655c602d0498b210b6b1e965cbe719d3c2dd0f68daddfe65b6a84e30'')
   \<and> snd (snd (hash_verify demo_libs orders_db ''orders''
        ''565f1691655c602d0498b210b6b1e965cbe719d3c2dd0f68daddfe65b6a84e30''
        [] None 10000 False None None)) = Return ()"
  using verify_accepts_created_fingerprint[OF orders_fingerprint, of None None]
    orders_fingerprint
  by simp

subsection \<open>C2: a mismatch is reported and ends with exit code 1\<close>




subsection \<open>C3: a rollback that fails after the drop\<close>

text \<open>
  Claim C3 says that a failed rollback leaves the table's contents unchanged. The code
  runs \<^verbatim>\<open>DROP TABLE\<close> and then \<^verbatim>\<open>CREATE TABLE .. AS SELECT\<close> with nothing to undo the
  first when the second fails. With a snapshot \<open>pre\<close> of \<open>orders\<close> taken and a storage
  failure at the second statement, the rollback exits with code 1 and \<open>orders\<close> is gone.
\<close>

theorem rollback_failure_leaves_table_dropped:
  "orders_snap_db ''orders'' = Some orders_table
   \<and> fst (snd (rollback recreate_fails demo_libs orders_snap_db ''orders'' ''pre'' False)) = Exit 1
   \<and> snd (snd (rollback recreate_fails demo_libs orders_snap_db ''orders'' ''pre'' False)) ''orders''
       = None"
  by code_simp

text \<open>
  Claim C3, amended. A rollback without \<^verbatim>\<open>--dry-run\<close> that fails leaves the database
  in one of two states: unchanged (the snapshot is missing, or \<^verbatim>\<open>DROP TABLE\<close> failed),
  or with the table dropped and every other table, the snapshot among them, as before.
\<close>

theorem rollback_failure_states:
  assumes "rollback F L d t s False = (out, Exit n, d')"
  shows "d' = d \<or> (d t \<noteq> None \<and> d' = d(t := None))"
  using assms
  by (auto simp: rollback_def Let_def run_stmt_def split: if_splits sum.splits option.splits)

theorem rollback_failure_states_witness:
  "fst (snd (rollback recreate_fails demo_libs orders_snap_db ''orders'' ''pre'' False)) = Exit 1
   \<and> (snd (snd (rollback recreate_fails demo_libs orders_snap_db ''orders'' ''pre'' False))
         = orders_snap_db
      \<or> orders_snap_db ''orders'' \<noteq> None
        \<and> snd (snd (rollback recreate_fails demo_libs orders_snap_db ''orders'' ''pre'' False))
            = orders_snap_db(''orders'' := None))"
proof -
  let ?X = "rollback recreate_fails demo_libs orders_snap_db ''orders'' ''pre'' False"
  have h: "?X = (fst ?X, Exit 1, snd (snd ?X))"
    using failed_rollback_exit by (simp add: prod_eq_iff)
  from rollback_failure_states[OF h] failed_rollback_exit show ?thesis by simp
qed

subsection \<open>C4: snapshot, then restore\<close>




subsection \<open>C5: excluded columns\<close>




subsection \<open>C6: the canonical order key\<close>


subsection \<open>C7: a snapshot name is taken once\<close>

text \<open>
  Claim C7. After \<open>snapshot\<close> has succeeded for a table and a name, a second call for
  the same table and name reports that the snapshot already exists, exits with code 1,
  and returns the database as it was: the table and the snapshot are untouched.
\<close>

theorem snapshot_twice_already_exists:
  assumes "snapshot F L d t n c now = (out, Return (), d1)"
  shows "snapshot F' L d1 t n c' now' =
           ([MsgSnapshotExists n t, MsgErrorCreating (TyperExit 1)], Exit 1, d1)"
  using snapshot_success_has_copy[OF assms]
  by (auto simp: snapshot_def Let_def)

theorem snapshot_twice_already_exists_witness:
  "fst (snd (snapshot no_faults demo_libs orders_db ''orders'' ''pre'' [] ''2024-01-01T00:00:00''))
     = Return ()
   \<and> snapshot no_faults demo_libs orders_snap_db ''orders'' ''pre'' ''again'' ''2024-01-02T00:00:00''
     = ([MsgSnapshotExists ''pre'' ''orders'', MsgErrorCreating (TyperExit 1)], Exit 1, orders_snap_db)"
proof -
  let ?X = "snapshot no_faults demo_libs orders_db ''orders'' ''pre'' [] ''2024-01-01T00:00:00''"
  have h: "?X = (fst ?X, Return (), orders_snap_db)"
    using orders_snapshot_returns by (simp add: orders_snap_db_def prod_eq_iff)
  from snapshot_twice_already_exists[OF h] orders_snapshot_returns show ?thesis by simp
qed

subsection \<open>C8: drift verdicts\<close>

text \<open>
  Claim C8. With the baseline snapshot and the live table present and the test
  succeeding on every column it is run on, \<open>drift_check\<close> prints the report of the
  rule: one row for each numeric column of the live table that the baseline has too,
  columns on one side only being left out; in a row, nulls are dropped on each side,
  the verdict is insufficient data with no statistic if a side is then empty, and
  otherwise drift exactly when the p-value is below the threshold and ok if not. The
  command signals drift, by the message and exit code 1, exactly when some row's
  verdict is drift.
\<close>

theorem drift_check_verdicts:
  assumes "d (snapshot_table_name baseline t) = Some base" and "d t = Some cur"
      and "drift_report th (ks_2samp L) (select_number L (map cname (cols cur)) (rows cur))
             cur base = Some report"
  shows "drift_check L d t baseline th =
           (if \<exists>r\<in>set report. dr_verdict r = Drift
            then ([MsgDriftTable report, MsgDriftDetected th], Exit 1)
            else ([MsgDriftTable report, MsgNoDrift], Return ()))"
  using assms
  by (simp add: drift_check_def Let_def drift_loop_report snapshot_table_name_def)

theorem drift_check_verdicts_witness:
  "drift_report 0.05 (ks_2samp demo_libs)
     (select_number demo_libs (map cname (cols gauges_live)) (rows gauges_live))
     gauges_live gauges_base
   = Some [\<lparr>dr_column = ''level'', dr_stat = Some (1, 0), dr_verdict = Drift\<rparr>,
           \<lparr>dr_column = ''batch'', dr_stat = Some (0, 1), dr_verdict = Ok\<rparr>,
           \<lparr>dr_column = ''spare'', dr_stat = None, dr_verdict = InsufficientData\<rparr>]
   \<and> drift_check demo_libs gauges_db ''gauges'' ''base'' 0.05 =
       ([MsgDriftTable
          [\<lparr>dr_column = ''level'', dr_stat = Some (1, 0), dr_verdict = Drift\<rparr>,
           \<lparr>dr_column = ''batch'', dr_stat = Some (0, 1), dr_verdict = Ok\<rparr>,
           \<lparr>dr_column = ''spare'', dr_stat = None, dr_verdict = InsufficientData\<rparr>],
         MsgDriftDetected 0.05], Exit 1)"
proof -
  have a: "gauges_db (snapshot_table_name ''base'' ''gauges'') = Some gauges_base"
    by (simp add: gauges_db_def snapshot_table_name_def)
  have b: "gauges_db ''gauges'' = Some gauges_live"
    by (simp add: gauges_db_def)
  from drift_check_verdicts[OF a b gauges_report] gauges_report show ?thesis by simp
qed

subsection \<open>C9: an added column\<close>




subsection \<open>C10: snapshot table names that coincide\<close>

text \<open>
  Claim C10. The name of the table that holds a snapshot, \<^verbatim>\<open>_snapshot_{name}_{table}\<close>,
  is the same for snapshot \<open>a\<close> of table \<open>x_b\<close> and for snapshot \<open>a_x\<close> of table \<open>b\<close>.
  Once the first has been taken, the catalogue holds one entry, for \<open>(a, x_b)\<close>; yet
  taking the second fails as already existing, a dry-run rollback of \<open>b\<close> to \<open>a_x\<close>
  counts the three rows copied from \<open>x_b\<close>, a rollback replaces the rows of \<open>b\<close> by
  them, and the drift check of \<open>b\<close> against \<open>a_x\<close> compares with them.
\<close>

theorem snapshot_table_name_collision:
  "snapshot_table_name ''a'' ''x_b'' = snapshot_table_name ''a_x'' ''b''
   \<and> fst (snd (snapshot no_faults demo_libs shelf_db ''x_b'' ''a'' [] ''2024-01-01T00:00:00''))
       = Return ()
   \<and> map_option rows (shelf_snap_db ''_wi_snapshots'')
       = Some [[VText ''a'', VText ''x_b'', VText ''_snapshot_a_x_b'',
                VText ''2024-01-01T00:00:00'', VText []]]
   \<and> fst (snapshot no_faults demo_libs shelf_snap_db ''b'' ''a_x'' [] ''2024-01-02T00:00:00'')
       = [MsgSnapshotExists ''a_x'' ''b'', MsgErrorCreating (TyperExit 1)]
   \<and> fst (snd (snapshot no_faults demo_libs shelf_snap_db ''b'' ''a_x'' [] ''2024-01-02T00:00:00''))
       = Exit 1
   \<and> fst (rollback no_faults demo_libs shelf_snap_db ''b'' ''a_x'' True)
       = [MsgDryRun 1 3, MsgNoChanges]
   \<and> fst (snd (rollback no_faults demo_libs shelf_snap_db ''b'' ''a_x'' False)) = Return ()
   \<and> map_option rows (snd (snd (rollback no_faults demo_libs shelf_snap_db ''b'' ''a_x'' False)) ''b'')
       = Some [[VInt 1], [VInt 2], [VInt 3]]
   \<and> drift_check demo_libs shelf_snap_db ''b'' ''a_x'' 0.05
       = ([MsgDriftTable [\<lparr>dr_column = ''v'', dr_stat = Some (1, 0), dr_verdict = Drift\<rparr>],
           MsgDriftDetected 0.05], Exit 1)"
  by code_simp

end
